theory Spec2Isabelle
  imports Main "HOL-Library.AList"
begin

section \<open>HabitsTracker: the calendar state model and its persistence\<close>

text \<open>
  A shallow embedding of \<^verbatim>\<open>src/HabitsTracker.py\<close>. The Tk widgets are kept as the
  values the program reads back from them (an entry's text and background, a day cell's
  background), the file system as a map from file names to file contents, and every
  exception the program can raise as a value.
\<close>

subsection \<open>AppConfig\<close>

definition MAX_HABIT_ROWS :: nat where
  "MAX_HABIT_ROWS = 10"

definition START_ROW_INDEX :: int where
  "START_ROW_INDEX = 2"

text \<open>\<^verbatim>\<open>YEAR_RANGE = range(2020, 2026)\<close>, as the membership test the program uses.\<close>

definition in_YEAR_RANGE :: "int \<Rightarrow> bool" where
  "in_YEAR_RANGE y \<longleftrightarrow> 2020 \<le> y \<and> y < 2026"

definition COLOR_COMPLETED :: string where
  "COLOR_COMPLETED = ''light green''"

definition COLOR_DEFAULT :: string where
  "COLOR_DEFAULT = ''white''"

text \<open>
  The status line. The messages are fixed format strings of \<^verbatim>\<open>AppConfig\<close>; a message is
  kept as its name together with the values formatted into it. \<open>STATUS_UNSET\<close> is the
  empty \<^verbatim>\<open>StringVar\<close> before the first message.
\<close>

datatype status =
    STATUS_UNSET
  | STATUS_SAVED int int
  | STATUS_SAVE_ERROR
  | STATUS_EMPTY_DATA
  | STATUS_NO_HABITS
  | STATUS_HABITS_LIST string
  | STATUS_INVALID_DATE
  | STATUS_INVALID_INPUT


subsection \<open>Python built-ins the program relies on\<close>

datatype exn = IllegalMonthError | IndexError

text \<open>\<^verbatim>\<open>xs[i]\<close>: a negative index counts from the end, an index out of range raises.\<close>

definition py_getitem :: "'a list \<Rightarrow> int \<Rightarrow> exn + 'a" where
  "py_getitem xs i =
     (if 0 \<le> i \<and> i < int (length xs) then Inr (xs ! nat i)
      else if i < 0 \<and> - int (length xs) \<le> i then Inr (xs ! nat (int (length xs) + i))
      else Inl IndexError)"

text \<open>\<^verbatim>\<open>str(n)\<close> of an integer, which is also what an f-string writes for it.\<close>

definition digit_char :: "nat \<Rightarrow> char" where
  "digit_char d = char_of (48 + d)"

fun nat_str :: "nat \<Rightarrow> string" where
  "nat_str n = (if n < 10 then [digit_char n] else nat_str (n div 10) @ [digit_char (n mod 10)])"

declare nat_str.simps [simp del]

definition py_str :: "int \<Rightarrow> string" where
  "py_str i = (if i < 0 then CHR ''-'' # nat_str (nat (- i)) else nat_str (nat i))"

text \<open>
  \<^verbatim>\<open>s.strip()\<close> and \<^verbatim>\<open>int(s)\<close> on byte strings: the ASCII white space is removed at both
  ends; \<^verbatim>\<open>int\<close> then accepts an optional sign and decimal digits, with single
  underscores between digits, and raises \<^verbatim>\<open>ValueError\<close> (\<open>None\<close>) on anything else.
\<close>

definition is_space :: "char \<Rightarrow> bool" where
  "is_space c \<longleftrightarrow> (let n = (of_char c :: nat) in (9 \<le> n \<and> n \<le> 13) \<or> (28 \<le> n \<and> n \<le> 32))"

definition py_strip :: "string \<Rightarrow> string" where
  "py_strip s = rev (dropWhile is_space (rev (dropWhile is_space s)))"

definition is_digit :: "char \<Rightarrow> bool" where
  "is_digit c \<longleftrightarrow> (let n = (of_char c :: nat) in 48 \<le> n \<and> n \<le> 57)"

definition digit_val :: "char \<Rightarrow> nat" where
  "digit_val c = (of_char c :: nat) - 48"

fun parse_digits :: "nat \<Rightarrow> string \<Rightarrow> nat option" where
  "parse_digits acc [] = Some acc"
| "parse_digits acc [c] = (if is_digit c then Some (10 * acc + digit_val c) else None)"
| "parse_digits acc (c # d # r) =
     (if is_digit c then parse_digits (10 * acc + digit_val c) (d # r)
      else if c = CHR ''_'' \<and> is_digit d then parse_digits acc (d # r)
      else None)"

definition parse_nat :: "string \<Rightarrow> nat option" where
  "parse_nat s = (case s of [] \<Rightarrow> None | c # r \<Rightarrow> if is_digit c then parse_digits 0 s else None)"

definition py_int :: "string \<Rightarrow> int option" where
  "py_int s =
     (case py_strip s of
        [] \<Rightarrow> None
      | c # r \<Rightarrow>
          if c = CHR ''-'' then map_option (\<lambda>n. - int n) (parse_nat r)
          else if c = CHR ''+'' then map_option int (parse_nat r)
          else map_option int (parse_nat (c # r)))"

subsection \<open>The calendar module\<close>

definition isleap :: "int \<Rightarrow> bool" where
  "isleap year \<longleftrightarrow> year mod 4 = 0 \<and> (year mod 100 \<noteq> 0 \<or> year mod 400 = 0)"

definition mdays :: "nat list" where
  "mdays = [0, 31, 28, 31, 30, 31, 30, 31, 31, 30, 31, 30, 31]"

text \<open>
  \<^verbatim>\<open>calendar.monthrange(year, month)[1]\<close>, the number of days of the month; the call
  raises \<^verbatim>\<open>IllegalMonthError\<close> for a month outside 1..12 and accepts every year.
\<close>

definition monthrange :: "int \<Rightarrow> int \<Rightarrow> exn + nat" where
  "monthrange year month =
     (if \<not> (1 \<le> month \<and> month \<le> 12) then Inl IllegalMonthError
      else Inr (mdays ! nat month + (if month = 2 \<and> isleap year then 1 else 0)))"

subsection \<open>The persisted data and the data directory\<close>

text \<open>
  A snapshot is the list the program pickles: one list per habit row, holding the dict of
  the habit entry followed by one dict per day. A dict is an association list from keys
  to string values; only the keys \<^verbatim>\<open>'text'\<close> and \<^verbatim>\<open>'bg'\<close> are ever looked up.
\<close>

type_synonym pydict = "(string \<times> string) list"
type_synonym snapshot = "pydict list list"

text \<open>
  A file of the data directory either holds the pickle of a snapshot or bytes that
  \<^verbatim>\<open>pickle.load\<close> rejects (an empty or truncated file among them). The environment
  decides whether opening a file for reading fails and how a write ends: it succeeds,
  \<^verbatim>\<open>open(filename, "wb")\<close> raises and the file is not touched, or the file is opened,
  which truncates it, and \<^verbatim>\<open>pickle.dump\<close> raises before the pickle is complete.
\<close>

datatype file_content = Pickled snapshot | Corrupt

datatype write_result = WriteOk | OpenFails | DumpFails

record store =
  files :: "string \<rightharpoonup> file_content"
  read_fails :: "string \<Rightarrow> bool"
  write_result :: "string \<Rightarrow> write_result"

subsection \<open>DataManager\<close>

definition get_filename :: "int \<Rightarrow> int \<Rightarrow> string" where
  "get_filename year month = ''data/habits_'' @ py_str year @ ''_'' @ py_str month @ ''.pkl''"

definition save_data :: "store \<Rightarrow> int \<Rightarrow> int \<Rightarrow> snapshot \<Rightarrow> bool \<times> store" where
  "save_data fs year month data =
     (if data = [] then (False, fs)
      else
        let filename = get_filename year month in
        case write_result fs filename of
          OpenFails \<Rightarrow> (False, fs)
        | DumpFails \<Rightarrow> (False, fs\<lparr>files := (files fs)(filename \<mapsto> Corrupt)\<rparr>)
        | WriteOk \<Rightarrow> (True, fs\<lparr>files := (files fs)(filename \<mapsto> Pickled data)\<rparr>))"

definition load_data :: "store \<Rightarrow> int \<Rightarrow> int \<Rightarrow> snapshot" where
  "load_data fs year month =
     (let filename = get_filename year month in
      case files fs filename of
        None \<Rightarrow> []
      | Some f \<Rightarrow>
          if read_fails fs filename then []
          else (case f of Pickled data \<Rightarrow> data | Corrupt \<Rightarrow> []))"

subsection \<open>The application state\<close>

text \<open>
  What the program keeps of a habit entry is its text and its background; of a day cell,
  a label of the calendar frame, its background. A label is named by its grid position
  (row, column): \<^verbatim>\<open>grid_slaves(row, column)[0]\<close> is the label gridded there last, which is
  the value the map holds. The header labels of rows 0 and 1 carry no binding and are
  never read back; they are not kept. A background is the colour name as \<^verbatim>\<open>cget\<close>
  returns it; the snapshots of the data directory are taken to hold colours Tk accepts.
  The data directory is part of the state, since the operations read and write it.
\<close>

record entry =
  entry_text :: string
  entry_bg :: string

record app =
  current_year :: int
  current_month :: int
  initialized :: bool
  habit_entries :: "(int \<times> entry) list"
  cells :: "int \<times> int \<rightharpoonup> string"
  status_text :: status
  year_var :: string
  month_var :: string
  disk :: store
  entry_background :: string

text \<open>
  An operation either returns or raises; since it mutates the application object in
  place, the state at the moment of the raise is what the rest of the session sees.
\<close>

datatype outcome = Done app | Raised exn app

fun state_of :: "outcome \<Rightarrow> app" where
  "state_of (Done st) = st"
| "state_of (Raised e st) = st"

fun then_do :: "outcome \<Rightarrow> (app \<Rightarrow> outcome) \<Rightarrow> outcome" where
  "then_do (Done st) f = f st"
| "then_do (Raised e st) f = Raised e st"

fun for_each :: "'a list \<Rightarrow> ('a \<Rightarrow> app \<Rightarrow> outcome) \<Rightarrow> app \<Rightarrow> outcome" where
  "for_each [] body st = Done st"
| "for_each (x # xs) body st = then_do (body x st) (for_each xs body)"

subsection \<open>CalendarApp\<close>

fun py_join :: "string \<Rightarrow> string list \<Rightarrow> string" where
  "py_join sep [] = []"
| "py_join sep [x] = x"
| "py_join sep (x # y # r) = x @ sep @ py_join sep (y # r)"

definition display_all_habits :: "app \<Rightarrow> app" where
  "display_all_habits st =
     (let habit_texts =
            concat (map (\<lambda>(row_idx, entry).
                      let habit_text = py_strip (entry_text entry) in
                      if habit_text \<noteq> []
                      then [py_str (row_idx - START_ROW_INDEX + 1) @ '': '' @ habit_text]
                      else [])
                    (sort_key fst (habit_entries st)))
      in if habit_texts \<noteq> []
         then st\<lparr>status_text := STATUS_HABITS_LIST (py_join '' | '' habit_texts)\<rparr>
         else st\<lparr>status_text := STATUS_NO_HABITS\<rparr>)"

definition collect_row :: "app \<Rightarrow> nat \<Rightarrow> nat \<Rightarrow> pydict list" where
  "collect_row st days_in_month i =
     (let row_index = START_ROW_INDEX + int i in
      (case map_of (habit_entries st) row_index of
         Some entry \<Rightarrow> [(''text'', entry_text entry), (''bg'', entry_bg entry)]
       | None \<Rightarrow> [(''text'', []), (''bg'', COLOR_DEFAULT)])
      # map (\<lambda>j. case cells st (row_index, int j) of
                    Some bg \<Rightarrow> [(''bg'', bg)]
                  | None \<Rightarrow> [(''bg'', COLOR_DEFAULT)])
            [1..<days_in_month + 1])"

definition collect_current_data :: "app \<Rightarrow> exn + snapshot" where
  "collect_current_data st =
     (case monthrange (current_year st) (current_month st) of
        Inl e \<Rightarrow> Inl e
      | Inr days_in_month \<Rightarrow> Inr (map (collect_row st days_in_month) [0..<MAX_HABIT_ROWS]))"

text \<open>
  \<^verbatim>\<open>root.after(1000, self._display_all_habits)\<close> only schedules a later refresh of the status
  line; the state right after the save is what is modelled.
\<close>

definition save_current_data :: "app \<Rightarrow> outcome" where
  "save_current_data st =
     (if \<not> initialized st then Done st
      else
        case collect_current_data st of
          Inl e \<Rightarrow> Raised e st
        | Inr data \<Rightarrow>
            if data = [] then Done (st\<lparr>status_text := STATUS_EMPTY_DATA\<rparr>)
            else
              (case save_data (disk st) (current_year st) (current_month st) data of
                 (success, fs) \<Rightarrow>
                   if success
                   then Done (st\<lparr>disk := fs,
                                 status_text := STATUS_SAVED (current_year st) (current_month st)\<rparr>)
                   else Done (st\<lparr>disk := fs, status_text := STATUS_SAVE_ERROR\<rparr>)))"

text \<open>
  The click handler of a day cell. The event carries the label that was clicked; a
  position that holds no label has no widget to deliver a click to, and nothing runs.
\<close>

definition toggle_cell_status :: "app \<Rightarrow> int \<times> int \<Rightarrow> outcome" where
  "toggle_cell_status st widget =
     (case cells st widget of
        None \<Rightarrow> Done st
      | Some current_color \<Rightarrow>
          let new_color = (if current_color = COLOR_DEFAULT then COLOR_COMPLETED
                           else COLOR_DEFAULT)
          in save_current_data (st\<lparr>cells := (cells st)(widget \<mapsto> new_color)\<rparr>))"

definition create_habit_entry :: "app \<Rightarrow> int \<Rightarrow> snapshot \<Rightarrow> app" where
  "create_habit_entry st row_index loaded_data =
     (let entry = \<lparr>entry_text = [], entry_bg = entry_background st\<rparr>;
          row_offset = row_index - START_ROW_INDEX;
          entry =
            (if loaded_data \<noteq> [] \<and> 0 \<le> row_offset \<and> row_offset < int (length loaded_data)
                \<and> loaded_data ! nat row_offset \<noteq> []
             then (case map_of (hd (loaded_data ! nat row_offset)) ''text'' of
                     None \<Rightarrow> entry
                   | Some habit_text \<Rightarrow>
                       if habit_text \<noteq> [] then entry\<lparr>entry_text := habit_text\<rparr> else entry)
             else entry)
      in st\<lparr>habit_entries := AList.update row_index entry (habit_entries st)\<rparr>)"

text \<open>
  \<^verbatim>\<open>_restore_cell_background\<close> configures the label just gridded at (row, column). Its
  row offset is not checked against 0, so the list accesses are Python's.
\<close>

definition restore_cell_background :: "app \<Rightarrow> int \<Rightarrow> int \<Rightarrow> snapshot \<Rightarrow> outcome" where
  "restore_cell_background st row_index col_index loaded_data =
     (let row_offset = row_index - START_ROW_INDEX in
      if loaded_data = [] \<or> row_offset \<ge> int (length loaded_data) then Done st
      else
        case py_getitem loaded_data row_offset of
          Inl e \<Rightarrow> Raised e st
        | Inr row \<Rightarrow>
            if row \<noteq> [] \<and> col_index < int (length row)
            then (case py_getitem row col_index of
                    Inl e \<Rightarrow> Raised e st
                  | Inr cell_data \<Rightarrow>
                      (case map_of cell_data ''bg'' of
                         None \<Rightarrow> Done st
                       | Some bg \<Rightarrow>
                           Done (st\<lparr>cells := (cells st)((row_index, col_index) \<mapsto> bg)\<rparr>)))
            else Done st)"

definition create_day_cell :: "app \<Rightarrow> int \<Rightarrow> int \<Rightarrow> snapshot \<Rightarrow> outcome" where
  "create_day_cell st row_index col_index loaded_data =
     restore_cell_background
       (st\<lparr>cells := (cells st)((row_index, col_index) \<mapsto> COLOR_DEFAULT)\<rparr>)
       row_index col_index loaded_data"

definition clear_calendar :: "app \<Rightarrow> app" where
  "clear_calendar st = st\<lparr>cells := Map.empty\<rparr>"

definition render_calendar_header :: "app \<Rightarrow> outcome" where
  "render_calendar_header st =
     (case monthrange (current_year st) (current_month st) of
        Inl e \<Rightarrow> Raised e st
      | Inr days_in_month \<Rightarrow> Done st)"

definition render_calendar_body :: "app \<Rightarrow> snapshot option \<Rightarrow> outcome" where
  "render_calendar_body st loaded_data_arg =
     (case monthrange (current_year st) (current_month st) of
        Inl e \<Rightarrow> Raised e st
      | Inr days_in_month \<Rightarrow>
          let loaded_data =
                (case loaded_data_arg of
                   None \<Rightarrow> load_data (disk st) (current_year st) (current_month st)
                 | Some d \<Rightarrow> d)
          in for_each [0..<MAX_HABIT_ROWS]
               (\<lambda>i s. let row_index = START_ROW_INDEX + int i in
                      for_each [1..<days_in_month + 1]
                        (\<lambda>j s'. create_day_cell s' row_index (int j) loaded_data)
                        (create_habit_entry s row_index loaded_data))
               st)"

definition update_calendar :: "app \<Rightarrow> int \<Rightarrow> int \<Rightarrow> bool \<Rightarrow> outcome" where
  "update_calendar st year month is_initial_load =
     then_do (if initialized st \<and> \<not> is_initial_load then save_current_data st else Done st)
       (\<lambda>s1. let s2 = clear_calendar
                        (s1\<lparr>current_year := year, current_month := month, habit_entries := []\<rparr>);
                 loaded_data = load_data (disk s2) year month
             in then_do (render_calendar_header s2)
                  (\<lambda>s3. then_do (render_calendar_body s3 (Some loaded_data))
                     (\<lambda>s4. Done (display_all_habits s4))))"

definition change_month :: "app \<Rightarrow> int \<Rightarrow> outcome" where
  "change_month st delta =
     (let new_month = current_month st + delta;
          new_year = current_year st;
          (new_month, new_year) =
            (if new_month < 1 then (12, new_year - 1)
             else if new_month > 12 then (1, new_year + 1)
             else (new_month, new_year))
      in if \<not> in_YEAR_RANGE new_year then Done st
         else update_calendar (st\<lparr>month_var := py_str new_month, year_var := py_str new_year\<rparr>)
                new_year new_month False)"

definition change_year :: "app \<Rightarrow> int \<Rightarrow> outcome" where
  "change_year st delta =
     (let new_year = current_year st + delta in
      if in_YEAR_RANGE new_year
      then update_calendar (st\<lparr>year_var := py_str new_year\<rparr>) new_year (current_month st) False
      else Done st)"

text \<open>
  \<^verbatim>\<open>IllegalMonthError\<close> is a \<^verbatim>\<open>ValueError\<close>, so the handler's \<^verbatim>\<open>except ValueError\<close> catches it
  as it catches a failed \<^verbatim>\<open>int(...)\<close>; an \<^verbatim>\<open>IndexError\<close> passes through.
\<close>

definition on_update_button_click :: "app \<Rightarrow> outcome" where
  "on_update_button_click st =
     (case py_int (year_var st) of
        None \<Rightarrow> Done (st\<lparr>status_text := STATUS_INVALID_INPUT\<rparr>)
      | Some selected_year \<Rightarrow>
          (case py_int (month_var st) of
             None \<Rightarrow> Done (st\<lparr>status_text := STATUS_INVALID_INPUT\<rparr>)
           | Some selected_month \<Rightarrow>
               if \<not> in_YEAR_RANGE selected_year \<or> \<not> (1 \<le> selected_month \<and> selected_month \<le> 12)
               then Done (st\<lparr>status_text := STATUS_INVALID_DATE\<rparr>)
               else
                 (case update_calendar st selected_year selected_month False of
                    Done s \<Rightarrow> Done s
                  | Raised IllegalMonthError s \<Rightarrow> Done (s\<lparr>status_text := STATUS_INVALID_INPUT\<rparr>)
                  | Raised IndexError s \<Rightarrow> Raised IndexError s)))"

text \<open>
  \<^verbatim>\<open>CalendarApp.__init__\<close>: the session starts at the month of the system clock
  (\<^verbatim>\<open>datetime.now()\<close>), over the data directory as it is found, with the toolkit's
  background for a new entry.
\<close>

definition init :: "store \<Rightarrow> string \<Rightarrow> int \<Rightarrow> int \<Rightarrow> outcome" where
  "init fs tk_entry_bg now_year now_month =
     (let st = \<lparr>current_year = now_year, current_month = now_month, initialized = False,
                habit_entries = [], cells = Map.empty, status_text = STATUS_UNSET,
                year_var = py_str now_year, month_var = py_str now_month,
                disk = fs, entry_background = tk_entry_bg\<rparr>
      in then_do (update_calendar st now_year now_month True)
           (\<lambda>s. Done (display_all_habits (s\<lparr>initialized := True\<rparr>))))"

section \<open>Derived notions used by the properties\<close>

text \<open>
  The length of a month by the Gregorian calendar, written out independently of the
  \<^verbatim>\<open>calendar\<close> module; \<open>monthrange_daysInMonth\<close> shows that the module computes it.
\<close>

definition daysInMonth :: "int \<Rightarrow> int \<Rightarrow> nat" where
  "daysInMonth year month =
     (if month = 2 then (if (year mod 4 = 0 \<and> year mod 100 \<noteq> 0) \<or> year mod 400 = 0 then 29 else 28)
      else if month = 4 \<or> month = 6 \<or> month = 9 \<or> month = 11 then 30
      else 31)"

text \<open>
  What a snapshot holds for a grid position: the name of habit row \<open>i\<close> (rows count
  from 0) and the background of its day \<open>j\<close> (days count from 1; index 0 of a row is
  the name). Where the snapshot has no such row, no such day or no such key, the name is
  empty and the background the default colour.
\<close>

definition snapshot_name :: "snapshot \<Rightarrow> nat \<Rightarrow> string" where
  "snapshot_name data i =
     (if i < length data
      then (case data ! i of
              [] \<Rightarrow> []
            | d # _ \<Rightarrow> (case map_of d ''text'' of None \<Rightarrow> [] | Some t \<Rightarrow> t))
      else [])"

definition snapshot_bg :: "snapshot \<Rightarrow> nat \<Rightarrow> nat \<Rightarrow> string" where
  "snapshot_bg data i j =
     (if i < length data \<and> j < length (data ! i)
      then (case map_of (data ! i ! j) ''bg'' of None \<Rightarrow> COLOR_DEFAULT | Some bg \<Rightarrow> bg)
      else COLOR_DEFAULT)"

text \<open>
  The entries and day cells that rendering a snapshot produces, in closed form.
\<close>

definition rendered_entry :: "snapshot \<Rightarrow> string \<Rightarrow> nat \<Rightarrow> entry" where
  "rendered_entry data bg i = \<lparr>entry_text = snapshot_name data i, entry_bg = bg\<rparr>"

definition rendered_entries :: "snapshot \<Rightarrow> string \<Rightarrow> (int \<times> entry) list" where
  "rendered_entries data bg =
     map (\<lambda>i. (START_ROW_INDEX + int i, rendered_entry data bg i)) [0..<MAX_HABIT_ROWS]"

definition rendered_cells :: "snapshot \<Rightarrow> nat \<Rightarrow> (int \<times> int \<rightharpoonup> string)" where
  "rendered_cells data days =
     (\<lambda>(r, c). if START_ROW_INDEX \<le> r \<and> r < START_ROW_INDEX + int MAX_HABIT_ROWS
                  \<and> 1 \<le> c \<and> c \<le> int days
               then Some (snapshot_bg data (nat (r - START_ROW_INDEX)) (nat c))
               else None)"

definition row_upd :: "snapshot \<Rightarrow> nat \<Rightarrow> nat list \<Rightarrow> (int \<times> int \<rightharpoonup> string) \<Rightarrow> (int \<times> int \<rightharpoonup> string)" where
  "row_upd data i js m =
     fold (\<lambda>j m'. m'((START_ROW_INDEX + int i, int j) \<mapsto> snapshot_bg data i j)) js m"

text \<open>
  The snapshot \<^verbatim>\<open>_collect_current_data\<close> returns for a grid of a calendar month, and the
  state \<^verbatim>\<open>_save_current_data\<close> leaves there.
\<close>

definition current_snapshot :: "app \<Rightarrow> snapshot" where
  "current_snapshot st =
     map (collect_row st (daysInMonth (current_year st) (current_month st))) [0..<MAX_HABIT_ROWS]"

definition persist :: "app \<Rightarrow> app" where
  "persist st =
     (if initialized st
      then (let r = save_data (disk st) (current_year st) (current_month st) (current_snapshot st)
            in st\<lparr>disk := snd r,
                  status_text := (if fst r then STATUS_SAVED (current_year st) (current_month st)
                                  else STATUS_SAVE_ERROR)\<rparr>)
      else st)"


definition cell_bg :: "app \<Rightarrow> nat \<Rightarrow> nat \<Rightarrow> string" where
  "cell_bg st i j =
     (case cells st (START_ROW_INDEX + int i, int j) of
        Some bg \<Rightarrow> bg
      | None \<Rightarrow> COLOR_DEFAULT)"

definition completed :: "string \<Rightarrow> bool" where
  "completed bg \<longleftrightarrow> bg \<noteq> COLOR_DEFAULT"

definition day_flag :: "app \<Rightarrow> nat \<Rightarrow> nat \<Rightarrow> bool" where
  "day_flag st i j = completed (cell_bg st i j)"

text \<open>
  The state \<^verbatim>\<open>_update_calendar\<close> builds for a month from the state left by the save.
\<close>

definition navigated :: "app \<Rightarrow> int \<Rightarrow> int \<Rightarrow> app" where
  "navigated s1 year month =
     display_all_habits
       (s1\<lparr>current_year := year, current_month := month,
           habit_entries := rendered_entries (load_data (disk s1) year month) (entry_background s1),
           cells := rendered_cells (load_data (disk s1) year month) (daysInMonth year month)\<rparr>)"

text \<open>
  Sample data directories and sessions: a fresh directory in which every write and read
  succeeds; a directory with one file, for May 2025, of a given content, readability and
  write behaviour; and the sessions started over them in May and in December 2025.
\<close>

definition empty_store :: store where
  "empty_store = \<lparr>files = Map.empty, read_fails = (\<lambda>_. False), write_result = (\<lambda>_. WriteOk)\<rparr>"

definition exercise_snapshot :: snapshot where
  "exercise_snapshot =
     [[[(''text'', ''Exercise''), (''bg'', ''white'')], [(''bg'', ''light green'')], [(''bg'', ''white'')]]]"

definition reading_snapshot :: snapshot where
  "reading_snapshot = [[[(''text'', ''Reading''), (''bg'', ''white'')], [(''bg'', ''white'')]]]"

definition may_store :: "file_content \<Rightarrow> bool \<Rightarrow> write_result \<Rightarrow> store" where
  "may_store f unreadable w =
     \<lparr>files = [get_filename 2025 5 \<mapsto> f], read_fails = (\<lambda>_. unreadable), write_result = (\<lambda>_. w)\<rparr>"

definition started :: "store \<Rightarrow> string \<Rightarrow> int \<Rightarrow> int \<Rightarrow> app" where
  "started fs tk_entry_bg now_year now_month = state_of (init fs tk_entry_bg now_year now_month)"

text \<open>
  The background a click gives a day cell.
\<close>

definition toggled :: "string \<Rightarrow> string" where
  "toggled bg = (if bg = COLOR_DEFAULT then COLOR_COMPLETED else COLOR_DEFAULT)"

definition may_session :: app where
  "may_session = started empty_store ''white'' 2025 5"


definition failing_session :: app where
  "failing_session = started (may_store (Pickled exercise_snapshot) False DumpFails) ''white'' 2025 5"

text \<open>
  The month on display is a month of the calendar in every state the program reaches:
  \<^verbatim>\<open>__init__\<close> takes it from the clock, and every handler returns with such a month again.
  The handlers also keep a year of 2020 to 2025 within that range.
\<close>

definition calendar_month :: "app \<Rightarrow> bool" where
  "calendar_month st \<longleftrightarrow> 1 \<le> current_month st \<and> current_month st \<le> 12"

section \<open>Properties\<close>

lemma monthrange_daysInMonth:
  assumes "1 \<le> month" "month \<le> 12"
  shows "monthrange year month = Inr (daysInMonth year month)"
proof -
  from assms have "month = 1 \<or> month = 2 \<or> month = 3 \<or> month = 4 \<or> month = 5 \<or> month = 6
      \<or> month = 7 \<or> month = 8 \<or> month = 9 \<or> month = 10 \<or> month = 11 \<or> month = 12"
    by arith
  then show ?thesis
    by (auto simp: monthrange_def daysInMonth_def mdays_def isleap_def)
qed

lemma monthrange_invalid:
  "\<not> (1 \<le> month \<and> month \<le> 12) \<Longrightarrow> monthrange year month = Inl IllegalMonthError"
  by (simp add: monthrange_def)

lemma create_habit_entry_row:
  "create_habit_entry st (START_ROW_INDEX + int i) data =
     st\<lparr>habit_entries :=
          AList.update (START_ROW_INDEX + int i) (rendered_entry data (entry_background st) i)
            (habit_entries st)\<rparr>"
  by (auto simp: create_habit_entry_def rendered_entry_def snapshot_name_def Let_def
           split: option.splits list.splits)

lemma create_day_cell_row:
  "create_day_cell st (START_ROW_INDEX + int i) (int j) data =
     Done (st\<lparr>cells := (cells st)((START_ROW_INDEX + int i, int j) \<mapsto> snapshot_bg data i j)\<rparr>)"
  by (auto simp: create_day_cell_def restore_cell_background_def snapshot_bg_def py_getitem_def
                 Let_def split: option.splits)

lemma row_upd_Nil: "row_upd data i [] m = m"
  by (simp add: row_upd_def)

lemma row_upd_Cons:
  "row_upd data i (j # js) m =
     row_upd data i js (m((START_ROW_INDEX + int i, int j) \<mapsto> snapshot_bg data i j))"
  by (simp add: row_upd_def)

lemma row_loop:
  "for_each js (\<lambda>j s'. create_day_cell s' (START_ROW_INDEX + int i) (int j) data) s =
     Done (s\<lparr>cells := row_upd data i js (cells s)\<rparr>)"
proof -
  define body where "body = (\<lambda>j s'. create_day_cell s' (START_ROW_INDEX + int i) (int j) data)"
  have "for_each js body s = Done (s\<lparr>cells := row_upd data i js (cells s)\<rparr>)"
  proof (induction js arbitrary: s)
    case Nil
    show ?case by (simp add: row_upd_Nil)
  next
    case (Cons j js)
    let ?s1 = "s\<lparr>cells := (cells s)((START_ROW_INDEX + int i, int j) \<mapsto> snapshot_bg data i j)\<rparr>"
    have "body j s = Done ?s1"
      unfolding body_def by (rule create_day_cell_row)
    then have "for_each (j # js) body s = for_each js body ?s1"
      by simp
    also have "\<dots> = Done (?s1\<lparr>cells := row_upd data i js (cells ?s1)\<rparr>)"
      by (rule Cons.IH)
    also have "\<dots> = Done (s\<lparr>cells := row_upd data i (j # js) (cells s)\<rparr>)"
      by (simp add: row_upd_Cons)
    finally show ?case .
  qed
  then show ?thesis by (simp only: body_def)
qed

lemma body_loop:
  "for_each is
     (\<lambda>i s. for_each js (\<lambda>j s'. create_day_cell s' (START_ROW_INDEX + int i) (int j) data)
              (create_habit_entry s (START_ROW_INDEX + int i) data))
     st =
   Done (st\<lparr>habit_entries :=
              fold (\<lambda>i al. AList.update (START_ROW_INDEX + int i)
                              (rendered_entry data (entry_background st) i) al)
                is (habit_entries st),
            cells := fold (\<lambda>i. row_upd data i js) is (cells st)\<rparr>)"
proof -
  define body where "body =
    (\<lambda>i s. for_each js (\<lambda>j s'. create_day_cell s' (START_ROW_INDEX + int i) (int j) data)
              (create_habit_entry s (START_ROW_INDEX + int i) data))"
  have "for_each is body st =
      Done (st\<lparr>habit_entries :=
                 fold (\<lambda>i al. AList.update (START_ROW_INDEX + int i)
                                 (rendered_entry data (entry_background st) i) al)
                   is (habit_entries st),
               cells := fold (\<lambda>i. row_upd data i js) is (cells st)\<rparr>)"
  proof (induction "is" arbitrary: st)
    case Nil
    show ?case by simp
  next
    case (Cons i "is")
    let ?s1 = "st\<lparr>habit_entries :=
                 AList.update (START_ROW_INDEX + int i)
                   (rendered_entry data (entry_background st) i) (habit_entries st),
               cells := row_upd data i js (cells st)\<rparr>"
    have "body i st = Done ?s1"
      unfolding body_def by (simp add: row_loop create_habit_entry_row)
    then have "for_each (i # is) body st = for_each is body ?s1"
      by simp
    also have "\<dots> =
      Done (?s1\<lparr>habit_entries :=
                 fold (\<lambda>i al. AList.update (START_ROW_INDEX + int i)
                                 (rendered_entry data (entry_background ?s1) i) al)
                   is (habit_entries ?s1),
               cells := fold (\<lambda>i. row_upd data i js) is (cells ?s1)\<rparr>)"
      by (rule Cons.IH)
    also have "\<dots> =
      Done (st\<lparr>habit_entries :=
                 fold (\<lambda>i al. AList.update (START_ROW_INDEX + int i)
                                 (rendered_entry data (entry_background st) i) al)
                   (i # is) (habit_entries st),
               cells := fold (\<lambda>i. row_upd data i js) (i # is) (cells st)\<rparr>)"
      by simp
    finally show ?case .
  qed
  then show ?thesis by (simp only: body_def)
qed

lemma row_upd_apply:
  "row_upd data i js m (a, b) =
     (if a = START_ROW_INDEX + int i \<and> b \<in> int ` set js
      then Some (snapshot_bg data i (nat b)) else m (a, b))"
  by (induction js arbitrary: m) (auto simp: row_upd_Nil row_upd_Cons)

lemma grid_upd_apply:
  "fold (\<lambda>i. row_upd data i js) is m (a, b) =
     (if (\<exists>i \<in> set is. a = START_ROW_INDEX + int i) \<and> b \<in> int ` set js
      then Some (snapshot_bg data (nat (a - START_ROW_INDEX)) (nat b)) else m (a, b))"
  by (induction "is" arbitrary: m) (auto simp: row_upd_apply)

lemma grid_upd_rendered:
  "fold (\<lambda>i. row_upd data i [1..<days + 1]) [0..<MAX_HABIT_ROWS] Map.empty = rendered_cells data days"
proof (rule ext)
  fix p :: "int \<times> int"
  obtain a b where p: "p = (a, b)" by (cases p)
  have rows: "(\<exists>i \<in> set [0..<MAX_HABIT_ROWS]. a = START_ROW_INDEX + int i)
      \<longleftrightarrow> START_ROW_INDEX \<le> a \<and> a < START_ROW_INDEX + int MAX_HABIT_ROWS"
  proof
    assume "\<exists>i \<in> set [0..<MAX_HABIT_ROWS]. a = START_ROW_INDEX + int i"
    then show "START_ROW_INDEX \<le> a \<and> a < START_ROW_INDEX + int MAX_HABIT_ROWS" by auto
  next
    assume h: "START_ROW_INDEX \<le> a \<and> a < START_ROW_INDEX + int MAX_HABIT_ROWS"
    then have "nat (a - START_ROW_INDEX) \<in> set [0..<MAX_HABIT_ROWS]" by auto
    moreover from h have "a = START_ROW_INDEX + int (nat (a - START_ROW_INDEX))" by simp
    ultimately show "\<exists>i \<in> set [0..<MAX_HABIT_ROWS]. a = START_ROW_INDEX + int i" by blast
  qed
  have cols: "b \<in> int ` set [1..<days + 1] \<longleftrightarrow> 1 \<le> b \<and> b \<le> int days"
  proof
    assume "b \<in> int ` set [1..<days + 1]"
    then show "1 \<le> b \<and> b \<le> int days" by auto
  next
    assume h: "1 \<le> b \<and> b \<le> int days"
    then have "nat b \<in> set [1..<days + 1]" by auto
    moreover from h have "b = int (nat b)" by simp
    ultimately show "b \<in> int ` set [1..<days + 1]" by blast
  qed
  show "fold (\<lambda>i. row_upd data i [1..<days + 1]) [0..<MAX_HABIT_ROWS] Map.empty p = rendered_cells data days p"
    unfolding p grid_upd_apply rows cols by (simp add: rendered_cells_def)
qed

lemma update_fresh:
  "k \<notin> fst ` set al \<Longrightarrow> AList.update k v al = al @ [(k, v)]"
  by (induction al) auto

lemma entries_fold_rendered:
  "fold (\<lambda>i al. AList.update (START_ROW_INDEX + int i) (rendered_entry data bg i) al) [0..<n] [] =
     map (\<lambda>i. (START_ROW_INDEX + int i, rendered_entry data bg i)) [0..<n]"
proof (induction n)
  case 0
  show ?case by simp
next
  case (Suc n)
  have "START_ROW_INDEX + int n \<notin> fst ` set (map (\<lambda>i. (START_ROW_INDEX + int i, rendered_entry data bg i)) [0..<n])"
    by auto
  then show ?case by (simp add: Suc.IH update_fresh)
qed

lemma render_calendar_body_rendered:
  assumes "1 \<le> current_month st" "current_month st \<le> 12"
    and "habit_entries st = []" "cells st = Map.empty"
  shows "render_calendar_body st (Some data) =
     Done (st\<lparr>habit_entries := rendered_entries data (entry_background st),
              cells := rendered_cells data (daysInMonth (current_year st) (current_month st))\<rparr>)"
proof -
  let ?d = "daysInMonth (current_year st) (current_month st)"
  have m: "monthrange (current_year st) (current_month st) = Inr ?d"
    using assms(1,2) by (rule monthrange_daysInMonth)
  have "render_calendar_body st (Some data) =
      for_each [0..<MAX_HABIT_ROWS]
        (\<lambda>i s. for_each [1..<?d + 1]
                 (\<lambda>j s'. create_day_cell s' (START_ROW_INDEX + int i) (int j) data)
                 (create_habit_entry s (START_ROW_INDEX + int i) data))
        st"
    by (simp only: render_calendar_body_def m sum.case option.case Let_def)
  also have "\<dots> =
      Done (st\<lparr>habit_entries :=
                 fold (\<lambda>i al. AList.update (START_ROW_INDEX + int i)
                                 (rendered_entry data (entry_background st) i) al)
                   [0..<MAX_HABIT_ROWS] (habit_entries st),
               cells := fold (\<lambda>i. row_upd data i [1..<?d + 1]) [0..<MAX_HABIT_ROWS] (cells st)\<rparr>)"
    by (rule body_loop)
  also have "\<dots> =
      Done (st\<lparr>habit_entries := rendered_entries data (entry_background st),
               cells := rendered_cells data ?d\<rparr>)"
    by (simp only: assms(3,4) grid_upd_rendered entries_fold_rendered rendered_entries_def)
  finally show ?thesis .
qed

lemma collect_current_data_valid:
  assumes "1 \<le> current_month st" "current_month st \<le> 12"
  shows "collect_current_data st = Inr (current_snapshot st)"
  by (simp add: collect_current_data_def current_snapshot_def monthrange_daysInMonth [OF assms])

lemma current_snapshot_length: "length (current_snapshot st) = MAX_HABIT_ROWS"
  by (simp add: current_snapshot_def)

lemma current_snapshot_nonempty: "current_snapshot st \<noteq> []"
proof
  assume "current_snapshot st = []"
  then have "length (current_snapshot st) = 0" by simp
  then show False by (simp add: current_snapshot_length MAX_HABIT_ROWS_def)
qed

lemma save_current_data_valid:
  assumes "1 \<le> current_month st" "current_month st \<le> 12"
  shows "save_current_data st = Done (persist st)"
  by (simp add: save_current_data_def persist_def collect_current_data_valid [OF assms]
        current_snapshot_nonempty Let_def split: prod.splits)

lemma save_current_data_uninitialized:
  "\<not> initialized st \<Longrightarrow> save_current_data st = Done st"
  by (simp add: save_current_data_def)

lemma display_all_habits_fields:
  "current_year (display_all_habits st) = current_year st"
  "current_month (display_all_habits st) = current_month st"
  "initialized (display_all_habits st) = initialized st"
  "habit_entries (display_all_habits st) = habit_entries st"
  "cells (display_all_habits st) = cells st"
  "year_var (display_all_habits st) = year_var st"
  "month_var (display_all_habits st) = month_var st"
  "disk (display_all_habits st) = disk st"
  "entry_background (display_all_habits st) = entry_background st"
  by (simp_all add: display_all_habits_def Let_def)

lemma persist_fields:
  "current_year (persist st) = current_year st"
  "current_month (persist st) = current_month st"
  "initialized (persist st) = initialized st"
  "habit_entries (persist st) = habit_entries st"
  "cells (persist st) = cells st"
  "year_var (persist st) = year_var st"
  "month_var (persist st) = month_var st"
  "entry_background (persist st) = entry_background st"
  by (simp_all add: persist_def Let_def)

lemma update_calendar_from:
  assumes "1 \<le> month" "month \<le> 12"
  shows "then_do (Done s1)
       (\<lambda>s1. let s2 = clear_calendar
                        (s1\<lparr>current_year := year, current_month := month, habit_entries := []\<rparr>);
                 loaded_data = load_data (disk s2) year month
             in then_do (render_calendar_header s2)
                  (\<lambda>s3. then_do (render_calendar_body s3 (Some loaded_data))
                     (\<lambda>s4. Done (display_all_habits s4)))) =
     Done (navigated s1 year month)"
proof -
  let ?s2 = "clear_calendar (s1\<lparr>current_year := year, current_month := month, habit_entries := []\<rparr>)"
  have h: "render_calendar_header ?s2 = Done ?s2"
    by (simp add: render_calendar_header_def clear_calendar_def monthrange_daysInMonth [OF assms])
  have b: "render_calendar_body ?s2 (Some data) =
      Done (?s2\<lparr>habit_entries := rendered_entries data (entry_background ?s2),
                cells := rendered_cells data (daysInMonth (current_year ?s2) (current_month ?s2))\<rparr>)"
    for data
    by (rule render_calendar_body_rendered) (simp_all add: clear_calendar_def assms)
  show ?thesis
    by (simp add: Let_def h b navigated_def) (simp add: clear_calendar_def)
qed

lemma update_calendar_initial:
  assumes "1 \<le> month" "month \<le> 12" and "\<not> initialized st \<or> is_initial_load"
  shows "update_calendar st year month is_initial_load = Done (navigated st year month)"
proof -
  from assms(3) have "(if initialized st \<and> \<not> is_initial_load then save_current_data st else Done st) = Done st"
    by auto
  then show ?thesis
    unfolding update_calendar_def by (simp only: update_calendar_from [OF assms(1,2)])
qed

lemma update_calendar_navigate:
  assumes "1 \<le> month" "month \<le> 12" and "initialized st"
    and "1 \<le> current_month st" "current_month st \<le> 12"
  shows "update_calendar st year month False = Done (navigated (persist st) year month)"
proof -
  from assms(3) have "(if initialized st \<and> \<not> False then save_current_data st else Done st) = Done (persist st)"
    by (simp add: save_current_data_valid [OF assms(4,5)])
  then show ?thesis
    unfolding update_calendar_def by (simp only: update_calendar_from [OF assms(1,2)])
qed

text \<open>
  C10. Saving an empty data list is refused: \<^verbatim>\<open>save_data\<close> returns \<open>False\<close>, the data
  directory is left as it was, and whatever \<^verbatim>\<open>load_data\<close> returned for the key before, it
  returns after.
\<close>

theorem save_data_empty_refused:
  "fst (save_data fs year month []) = False
   \<and> snd (save_data fs year month []) = fs
   \<and> load_data (snd (save_data fs year month [])) year month = load_data fs year month"
  by (simp add: save_data_def)

theorem save_data_empty_refused_witness:
  "fst (save_data (may_store (Pickled exercise_snapshot) False WriteOk) 2025 5 []) = False
   \<and> load_data (snd (save_data (may_store (Pickled exercise_snapshot) False WriteOk) 2025 5 [])) 2025 5
       = exercise_snapshot"
  using save_data_empty_refused [of "may_store (Pickled exercise_snapshot) False WriteOk" 2025 5]
  by (simp add: load_data_def may_store_def)

text \<open>
  C5. \<^verbatim>\<open>load_data\<close> returns the stored snapshot when the file exists, can be read and
  unpickles; it returns the empty list, the program's "absent", when the file was never
  written, when its content does not unpickle and when it cannot be read. The function
  is total: none of these cases raises.
\<close>

theorem load_data_cases:
  "(files fs (get_filename year month) = Some (Pickled data)
      \<and> \<not> read_fails fs (get_filename year month) \<longrightarrow> load_data fs year month = data)
   \<and> (files fs (get_filename year month) = None \<longrightarrow> load_data fs year month = [])
   \<and> (files fs (get_filename year month) = Some Corrupt \<or> read_fails fs (get_filename year month)
        \<longrightarrow> load_data fs year month = [])"
  by (auto simp: load_data_def Let_def split: option.splits file_content.splits)

theorem load_data_cases_witness:
  "load_data (may_store (Pickled exercise_snapshot) False WriteOk) 2025 5 = exercise_snapshot
   \<and> load_data empty_store 2025 5 = []
   \<and> load_data (may_store Corrupt False WriteOk) 2025 5 = []
   \<and> load_data (may_store (Pickled exercise_snapshot) True WriteOk) 2025 5 = []"
proof -
  have a: "files (may_store (Pickled exercise_snapshot) False WriteOk) (get_filename 2025 5)
             = Some (Pickled exercise_snapshot)
           \<and> \<not> read_fails (may_store (Pickled exercise_snapshot) False WriteOk) (get_filename 2025 5)"
    by (simp add: may_store_def)
  have b: "files empty_store (get_filename 2025 5) = None"
    by (simp add: empty_store_def)
  have c: "files (may_store Corrupt False WriteOk) (get_filename 2025 5) = Some Corrupt"
    by (simp add: may_store_def)
  have d: "read_fails (may_store (Pickled exercise_snapshot) True WriteOk) (get_filename 2025 5)"
    by (simp add: may_store_def)
  show ?thesis
    using a b c d
      load_data_cases [of "may_store (Pickled exercise_snapshot) False WriteOk" 2025 5 exercise_snapshot]
      load_data_cases [of empty_store 2025 5]
      load_data_cases [of "may_store Corrupt False WriteOk" 2025 5]
      load_data_cases [of "may_store (Pickled exercise_snapshot) True WriteOk" 2025 5]
    by blast
qed


lemma rendered_cells_apply:
  "rendered_cells data days (START_ROW_INDEX + int i, int j) =
     (if i < MAX_HABIT_ROWS \<and> 1 \<le> j \<and> j \<le> days then Some (snapshot_bg data i j) else None)"
  by (auto simp: rendered_cells_def)


lemma cell_bg_navigated:
  "i < MAX_HABIT_ROWS \<Longrightarrow> 1 \<le> j \<Longrightarrow> j \<le> daysInMonth year month \<Longrightarrow>
     cell_bg (navigated s1 year month) i j = snapshot_bg (load_data (disk s1) year month) i j"
  by (simp add: cell_bg_def navigated_def display_all_habits_fields rendered_cells_apply)

lemma navigated_fields:
  "current_year (navigated s1 year month) = year"
  "current_month (navigated s1 year month) = month"
  "initialized (navigated s1 year month) = initialized s1"
  "disk (navigated s1 year month) = disk s1"
  "year_var (navigated s1 year month) = year_var s1"
  "month_var (navigated s1 year month) = month_var s1"
  "entry_background (navigated s1 year month) = entry_background s1"
  "habit_entries (navigated s1 year month) =
     rendered_entries (load_data (disk s1) year month) (entry_background s1)"
  "cells (navigated s1 year month) =
     rendered_cells (load_data (disk s1) year month) (daysInMonth year month)"
  by (simp_all add: navigated_def display_all_habits_fields)



lemma init_valid:
  assumes "1 \<le> now_month" "now_month \<le> 12"
  shows "init fs bg now_year now_month = Done (started fs bg now_year now_month)"
  by (simp add: started_def init_def update_calendar_initial [OF assms])

lemma started_fields:
  assumes "1 \<le> now_month" "now_month \<le> 12"
  shows "current_year (started fs bg now_year now_month) = now_year"
    and "current_month (started fs bg now_year now_month) = now_month"
    and "initialized (started fs bg now_year now_month)"
    and "disk (started fs bg now_year now_month) = fs"
    and "year_var (started fs bg now_year now_month) = py_str now_year"
    and "month_var (started fs bg now_year now_month) = py_str now_month"
    and "entry_background (started fs bg now_year now_month) = bg"
    and "habit_entries (started fs bg now_year now_month) =
           rendered_entries (load_data fs now_year now_month) bg"
    and "cells (started fs bg now_year now_month) =
           rendered_cells (load_data fs now_year now_month) (daysInMonth now_year now_month)"
  by (simp_all add: started_def init_def update_calendar_initial [OF assms]
        display_all_habits_fields navigated_fields)



lemma completed_toggled: "completed (toggled bg) \<longleftrightarrow> \<not> completed bg"
  by (simp add: completed_def toggled_def COLOR_COMPLETED_def COLOR_DEFAULT_def)

lemma toggled_twice:
  "bg = COLOR_DEFAULT \<or> bg = COLOR_COMPLETED \<Longrightarrow> toggled (toggled bg) = bg"
  by (auto simp: toggled_def COLOR_COMPLETED_def COLOR_DEFAULT_def)

lemma save_current_data_state:
  "current_year (state_of (save_current_data st)) = current_year st"
  "current_month (state_of (save_current_data st)) = current_month st"
  "initialized (state_of (save_current_data st)) = initialized st"
  "habit_entries (state_of (save_current_data st)) = habit_entries st"
  "cells (state_of (save_current_data st)) = cells st"
  "year_var (state_of (save_current_data st)) = year_var st"
  "month_var (state_of (save_current_data st)) = month_var st"
  "entry_background (state_of (save_current_data st)) = entry_background st"
  by (simp_all add: save_current_data_def split: sum.splits prod.splits)

lemma toggle_cell_status_present:
  "cells st widget = Some bg \<Longrightarrow>
     toggle_cell_status st widget = save_current_data (st\<lparr>cells := (cells st)(widget \<mapsto> toggled bg)\<rparr>)"
  by (simp add: toggle_cell_status_def toggled_def)

lemma toggle_cell_status_absent:
  "cells st widget = None \<Longrightarrow> toggle_cell_status st widget = Done st"
  by (simp add: toggle_cell_status_def)

lemma toggle_cell_status_cells:
  "cells (state_of (toggle_cell_status st widget)) =
     (case cells st widget of
        None \<Rightarrow> cells st
      | Some bg \<Rightarrow> (cells st)(widget \<mapsto> toggled bg))"
  by (simp add: toggle_cell_status_present toggle_cell_status_absent save_current_data_state
           split: option.splits)

text \<open>
  C9. The claim fails at session start. \<^verbatim>\<open>__init__\<close> takes the year from the system clock
  and checks it against nothing, while every navigation handler tests
  \<^verbatim>\<open>YEAR_RANGE\<close>: started on a day of November 2026, the session shows the year 2026,
  outside 2020 to 2025.
\<close>

theorem startup_year_outside_range:
  "\<exists>st. init empty_store ''white'' 2026 11 = Done st
        \<and> current_year st = 2026 \<and> current_month st = 11
        \<and> \<not> in_YEAR_RANGE (current_year st)"
proof -
  have m: "(1::int) \<le> 11" "(11::int) \<le> 12" by simp_all
  have "init empty_store ''white'' 2026 11 = Done (started empty_store ''white'' 2026 11)"
    using m by (rule init_valid)
  moreover have "current_year (started empty_store ''white'' 2026 11) = 2026"
    using m by (rule started_fields)
  moreover have "current_month (started empty_store ''white'' 2026 11) = 11"
    using m by (rule started_fields)
  ultimately show ?thesis by (simp add: in_YEAR_RANGE_def)
qed

text \<open>
  C8. Two clicks on the same day cell leave its flag as it was. The flag of a cell is
  read as the click handler reads it: a cell counts as not completed exactly when its
  background is the default colour. The first click does change the flag of a cell that
  exists; a cell in one of the two colours the program itself sets gets its very colour
  back; and both clicks return whenever the month on display is a month of the
  calendar.
\<close>

theorem toggle_twice_restores_flag:
  "day_flag (state_of (toggle_cell_status
                (state_of (toggle_cell_status st (START_ROW_INDEX + int i, int j)))
                (START_ROW_INDEX + int i, int j))) i j
     = day_flag st i j
   \<and> (cells st (START_ROW_INDEX + int i, int j) \<noteq> None \<longrightarrow>
        day_flag (state_of (toggle_cell_status st (START_ROW_INDEX + int i, int j))) i j
          = (\<not> day_flag st i j))
   \<and> (cells st (START_ROW_INDEX + int i, int j) = Some COLOR_DEFAULT
        \<or> cells st (START_ROW_INDEX + int i, int j) = Some COLOR_COMPLETED \<longrightarrow>
        cells (state_of (toggle_cell_status
                 (state_of (toggle_cell_status st (START_ROW_INDEX + int i, int j)))
                 (START_ROW_INDEX + int i, int j)))
          = cells st)
   \<and> (1 \<le> current_month st \<and> current_month st \<le> 12 \<longrightarrow>
        (\<exists>s1 s2. toggle_cell_status st (START_ROW_INDEX + int i, int j) = Done s1
                \<and> toggle_cell_status s1 (START_ROW_INDEX + int i, int j) = Done s2))"
proof -
  let ?w = "(START_ROW_INDEX + int i, int j)"
  let ?s1 = "state_of (toggle_cell_status st ?w)"
  let ?s2 = "state_of (toggle_cell_status ?s1 ?w)"
  have flag2: "day_flag ?s2 i j = day_flag st i j"
    by (cases "cells st ?w")
       (simp_all add: day_flag_def cell_bg_def toggle_cell_status_cells completed_toggled)
  have flag1: "cells st ?w \<noteq> None \<longrightarrow> day_flag ?s1 i j = (\<not> day_flag st i j)"
    by (cases "cells st ?w")
       (simp_all add: day_flag_def cell_bg_def toggle_cell_status_cells completed_toggled)
  have colour: "cells st ?w = Some COLOR_DEFAULT \<or> cells st ?w = Some COLOR_COMPLETED
      \<longrightarrow> cells ?s2 = cells st"
  proof
    assume "cells st ?w = Some COLOR_DEFAULT \<or> cells st ?w = Some COLOR_COMPLETED"
    then obtain bg where bg: "cells st ?w = Some bg" "bg = COLOR_DEFAULT \<or> bg = COLOR_COMPLETED"
      by auto
    have "cells ?s2 = (cells st)(?w \<mapsto> toggled (toggled bg))"
      by (simp add: toggle_cell_status_cells bg(1))
    also have "\<dots> = (cells st)(?w \<mapsto> bg)"
      by (simp only: toggled_twice [OF bg(2)])
    also have "\<dots> = cells st"
      using bg(1) by (rule map_upd_triv)
    finally show "cells ?s2 = cells st" .
  qed
  have returns: "1 \<le> current_month st \<and> current_month st \<le> 12 \<longrightarrow>
      (\<exists>s1 s2. toggle_cell_status st ?w = Done s1 \<and> toggle_cell_status s1 ?w = Done s2)"
  proof
    assume m: "1 \<le> current_month st \<and> current_month st \<le> 12"
    have one: "\<exists>s'. toggle_cell_status s ?w = Done s' \<and> current_month s' = current_month s"
      if "1 \<le> current_month s" "current_month s \<le> 12" for s
    proof (cases "cells s ?w")
      case None
      then show ?thesis by (simp add: toggle_cell_status_absent)
    next
      case (Some bg)
      let ?t = "s\<lparr>cells := (cells s)(?w \<mapsto> toggled bg)\<rparr>"
      have "save_current_data ?t = Done (persist ?t)"
        by (rule save_current_data_valid) (simp_all add: that)
      then show ?thesis
        by (simp add: toggle_cell_status_present [OF Some] persist_fields)
    qed
    from m one [of st] obtain s1 where s1: "toggle_cell_status st ?w = Done s1"
      "current_month s1 = current_month st" by auto
    with m one [of s1] obtain s2 where "toggle_cell_status s1 ?w = Done s2" by auto
    with s1 show "\<exists>s1 s2. toggle_cell_status st ?w = Done s1 \<and> toggle_cell_status s1 ?w = Done s2"
      by blast
  qed
  from flag2 flag1 colour returns show ?thesis by blast
qed

lemma may_session_init: "init empty_store ''white'' 2025 5 = Done may_session"
  unfolding may_session_def by (rule init_valid) simp_all

lemma may_session_fields:
  "current_year may_session = 2025"
  "current_month may_session = 5"
  "initialized may_session"
  "disk may_session = empty_store"
  unfolding may_session_def by (simp_all add: started_fields)


lemma may_session_grid:
  "cells may_session = rendered_cells [] 31"
  "habit_entries may_session = rendered_entries [] ''white''"
proof -
  have l: "load_data empty_store 2025 5 = []"
    by (simp add: load_data_def empty_store_def)
  have d: "daysInMonth 2025 5 = 31"
    by (simp add: daysInMonth_def)
  show "cells may_session = rendered_cells [] 31"
    unfolding may_session_def by (simp add: started_fields l d)
  show "habit_entries may_session = rendered_entries [] ''white''"
    unfolding may_session_def by (simp add: started_fields l)
qed

lemma may_session_cell:
  "cells may_session (2, 1) = Some COLOR_DEFAULT"
  "cells may_session (2, 32) = None"
  by (simp_all add: may_session_grid rendered_cells_def snapshot_bg_def START_ROW_INDEX_def
        MAX_HABIT_ROWS_def)

lemma may_session_first_cell:
  "cells may_session (START_ROW_INDEX + int 0, int 1) = Some COLOR_DEFAULT"
  by (simp add: START_ROW_INDEX_def may_session_cell)

theorem toggle_twice_restores_flag_witness:
  "day_flag (state_of (toggle_cell_status
                (state_of (toggle_cell_status may_session (START_ROW_INDEX + int 0, int 1)))
                (START_ROW_INDEX + int 0, int 1))) 0 1
     = day_flag may_session 0 1
   \<and> cells may_session (START_ROW_INDEX + int 0, int 1) = Some COLOR_DEFAULT
   \<and> day_flag (state_of (toggle_cell_status may_session (START_ROW_INDEX + int 0, int 1))) 0 1
       = (\<not> day_flag may_session 0 1)
   \<and> cells (state_of (toggle_cell_status
                (state_of (toggle_cell_status may_session (START_ROW_INDEX + int 0, int 1)))
                (START_ROW_INDEX + int 0, int 1)))
       = cells may_session
   \<and> 1 \<le> current_month may_session \<and> current_month may_session \<le> 12
   \<and> (\<exists>s1 s2. toggle_cell_status may_session (START_ROW_INDEX + int 0, int 1) = Done s1
              \<and> toggle_cell_status s1 (START_ROW_INDEX + int 0, int 1) = Done s2)"
proof -
  have c: "cells may_session (START_ROW_INDEX + int 0, int 1) = Some COLOR_DEFAULT"
    by (rule may_session_first_cell)
  have m: "1 \<le> current_month may_session \<and> current_month may_session \<le> 12"
    by (simp add: may_session_fields)
  from toggle_twice_restores_flag [of may_session 0 1] c m show ?thesis
    by simp
qed











lemma failing_session_fields:
  "current_year failing_session = 2025"
  "current_month failing_session = 5"
  "initialized failing_session"
  "disk failing_session = may_store (Pickled exercise_snapshot) False DumpFails"
  unfolding failing_session_def by (simp_all add: started_fields)

text \<open>
  C6, as the code has it. A successful \<^verbatim>\<open>save_data\<close> replaces whatever the file of the key
  held, and a later \<^verbatim>\<open>load_data\<close> of a readable file returns the snapshot. A failed write
  never raises: \<^verbatim>\<open>save_data\<close> returns \<open>False\<close>, and \<^verbatim>\<open>_save_current_data\<close> returns with the
  year, month, habit entries and day cells in memory as they were and the save-error
  message on the status line. The write is not atomic, though: the file is opened with
  mode \<^verbatim>\<open>"wb"\<close> and written in place, so a failure at \<^verbatim>\<open>open\<close> leaves the file as it was,
  while a failure during \<^verbatim>\<open>pickle.dump\<close> leaves a truncated file, and the snapshot stored
  before is lost. Files of other keys are never touched.
\<close>

theorem save_data_outcomes:
  "(data \<noteq> [] \<and> write_result fs (get_filename year month) = WriteOk \<longrightarrow>
      fst (save_data fs year month data)
      \<and> files (snd (save_data fs year month data)) (get_filename year month) = Some (Pickled data)
      \<and> (\<not> read_fails fs (get_filename year month) \<longrightarrow>
           load_data (snd (save_data fs year month data)) year month = data))
   \<and> (write_result fs (get_filename year month) = OpenFails \<longrightarrow>
        save_data fs year month data = (False, fs))
   \<and> (data \<noteq> [] \<and> write_result fs (get_filename year month) = DumpFails \<longrightarrow>
        \<not> fst (save_data fs year month data)
        \<and> files (snd (save_data fs year month data)) (get_filename year month) = Some Corrupt
        \<and> load_data (snd (save_data fs year month data)) year month = [])
   \<and> (\<forall>other. other \<noteq> get_filename year month \<longrightarrow>
        files (snd (save_data fs year month data)) other = files fs other)
   \<and> (initialized st \<and> 1 \<le> current_month st \<and> current_month st \<le> 12 \<longrightarrow>
        (\<exists>snapshot st'.
            collect_current_data st = Inr snapshot
          \<and> save_current_data st = Done st'
          \<and> current_year st' = current_year st
          \<and> current_month st' = current_month st
          \<and> initialized st'
          \<and> habit_entries st' = habit_entries st
          \<and> cells st' = cells st
          \<and> disk st' = snd (save_data (disk st) (current_year st) (current_month st) snapshot)
          \<and> (fst (save_data (disk st) (current_year st) (current_month st) snapshot) \<longrightarrow>
               status_text st' = STATUS_SAVED (current_year st) (current_month st))
          \<and> (\<not> fst (save_data (disk st) (current_year st) (current_month st) snapshot) \<longrightarrow>
               status_text st' = STATUS_SAVE_ERROR)))"
proof (intro conjI allI impI)
  assume "data \<noteq> [] \<and> write_result fs (get_filename year month) = WriteOk"
  then show "fst (save_data fs year month data)"
    and "files (snd (save_data fs year month data)) (get_filename year month) = Some (Pickled data)"
    by (simp_all add: save_data_def)
next
  assume "data \<noteq> [] \<and> write_result fs (get_filename year month) = WriteOk"
    and "\<not> read_fails fs (get_filename year month)"
  then show "load_data (snd (save_data fs year month data)) year month = data"
    by (simp add: save_data_def load_data_def)
next
  assume "write_result fs (get_filename year month) = OpenFails"
  then show "save_data fs year month data = (False, fs)"
    by (simp add: save_data_def)
next
  assume "data \<noteq> [] \<and> write_result fs (get_filename year month) = DumpFails"
  then show "\<not> fst (save_data fs year month data)"
    and "files (snd (save_data fs year month data)) (get_filename year month) = Some Corrupt"
    and "load_data (snd (save_data fs year month data)) year month = []"
    by (simp_all add: save_data_def load_data_def)
next
  fix other
  assume "other \<noteq> get_filename year month"
  then show "files (snd (save_data fs year month data)) other = files fs other"
    by (simp add: save_data_def Let_def split: write_result.splits)
next
  assume a: "initialized st \<and> 1 \<le> current_month st \<and> current_month st \<le> 12"
  then have m: "1 \<le> current_month st" "current_month st \<le> 12" by simp_all
  show "\<exists>snapshot st'.
            collect_current_data st = Inr snapshot
          \<and> save_current_data st = Done st'
          \<and> current_year st' = current_year st
          \<and> current_month st' = current_month st
          \<and> initialized st'
          \<and> habit_entries st' = habit_entries st
          \<and> cells st' = cells st
          \<and> disk st' = snd (save_data (disk st) (current_year st) (current_month st) snapshot)
          \<and> (fst (save_data (disk st) (current_year st) (current_month st) snapshot) \<longrightarrow>
               status_text st' = STATUS_SAVED (current_year st) (current_month st))
          \<and> (\<not> fst (save_data (disk st) (current_year st) (current_month st) snapshot) \<longrightarrow>
               status_text st' = STATUS_SAVE_ERROR)"
  proof (intro exI [of _ "current_snapshot st"] exI [of _ "persist st"] conjI impI)
    show "collect_current_data st = Inr (current_snapshot st)"
      using m by (rule collect_current_data_valid)
    show "save_current_data st = Done (persist st)"
      using m by (rule save_current_data_valid)
    show "current_year (persist st) = current_year st" by (simp add: persist_fields)
    show "current_month (persist st) = current_month st" by (simp add: persist_fields)
    show "initialized (persist st)" using a by (simp add: persist_fields)
    show "habit_entries (persist st) = habit_entries st" by (simp add: persist_fields)
    show "cells (persist st) = cells st" by (simp add: persist_fields)
    show "disk (persist st) =
        snd (save_data (disk st) (current_year st) (current_month st) (current_snapshot st))"
      using a by (simp add: persist_def Let_def)
    show "status_text (persist st) = STATUS_SAVED (current_year st) (current_month st)"
      if "fst (save_data (disk st) (current_year st) (current_month st) (current_snapshot st))"
      using a that by (simp add: persist_def Let_def)
    show "status_text (persist st) = STATUS_SAVE_ERROR"
      if "\<not> fst (save_data (disk st) (current_year st) (current_month st) (current_snapshot st))"
      using a that by (simp add: persist_def Let_def)
  qed
qed

theorem save_not_atomic_counterexample:
  "load_data (may_store (Pickled exercise_snapshot) False DumpFails) 2025 5 = exercise_snapshot
   \<and> \<not> fst (save_data (may_store (Pickled exercise_snapshot) False DumpFails) 2025 5
               reading_snapshot)
   \<and> files (snd (save_data (may_store (Pickled exercise_snapshot) False DumpFails) 2025 5
                   reading_snapshot)) (get_filename 2025 5) = Some Corrupt
   \<and> load_data (snd (save_data (may_store (Pickled exercise_snapshot) False DumpFails) 2025 5
                       reading_snapshot)) 2025 5 = []
   \<and> exercise_snapshot \<noteq> [] \<and> reading_snapshot \<noteq> []"
  by (simp add: save_data_def load_data_def may_store_def exercise_snapshot_def
        reading_snapshot_def)

theorem save_data_outcomes_witness:
  "reading_snapshot \<noteq> []
   \<and> write_result (may_store (Pickled exercise_snapshot) False WriteOk) (get_filename 2025 5) = WriteOk
   \<and> \<not> read_fails (may_store (Pickled exercise_snapshot) False WriteOk) (get_filename 2025 5)
   \<and> load_data (snd (save_data (may_store (Pickled exercise_snapshot) False WriteOk) 2025 5
                       reading_snapshot)) 2025 5 = reading_snapshot
   \<and> write_result (may_store (Pickled exercise_snapshot) False OpenFails) (get_filename 2025 5)
       = OpenFails
   \<and> save_data (may_store (Pickled exercise_snapshot) False OpenFails) 2025 5 reading_snapshot
       = (False, may_store (Pickled exercise_snapshot) False OpenFails)
   \<and> write_result (may_store (Pickled exercise_snapshot) False DumpFails) (get_filename 2025 5)
       = DumpFails
   \<and> load_data (snd (save_data (may_store (Pickled exercise_snapshot) False DumpFails) 2025 5
                       reading_snapshot)) 2025 5 = []
   \<and> initialized failing_session
   \<and> 1 \<le> current_month failing_session \<and> current_month failing_session \<le> 12
   \<and> (\<exists>st'. save_current_data failing_session = Done st'
          \<and> habit_entries st' = habit_entries failing_session
          \<and> cells st' = cells failing_session
          \<and> status_text st' = STATUS_SAVE_ERROR)"
proof -
  let ?ok = "may_store (Pickled exercise_snapshot) False WriteOk"
  let ?no = "may_store (Pickled exercise_snapshot) False OpenFails"
  let ?cut = "may_store (Pickled exercise_snapshot) False DumpFails"
  have r: "reading_snapshot \<noteq> []" by (simp add: reading_snapshot_def)
  have a: "write_result ?ok (get_filename 2025 5) = WriteOk \<and> \<not> read_fails ?ok (get_filename 2025 5)"
    by (simp add: may_store_def)
  have b: "write_result ?no (get_filename 2025 5) = OpenFails" by (simp add: may_store_def)
  have c: "write_result ?cut (get_filename 2025 5) = DumpFails" by (simp add: may_store_def)
  have i: "initialized failing_session \<and> 1 \<le> current_month failing_session
      \<and> current_month failing_session \<le> 12"
    by (simp add: failing_session_fields)
  have f: "\<not> fst (save_data (disk failing_session) (current_year failing_session)
                    (current_month failing_session) snapshot)" for snapshot
    by (simp add: failing_session_fields save_data_def may_store_def)
  from save_data_outcomes [of reading_snapshot ?ok 2025 5] r a
  have 1: "load_data (snd (save_data ?ok 2025 5 reading_snapshot)) 2025 5 = reading_snapshot"
    by blast
  from save_data_outcomes [of reading_snapshot ?no 2025 5] b
  have 2: "save_data ?no 2025 5 reading_snapshot = (False, ?no)"
    by blast
  from save_data_outcomes [of reading_snapshot ?cut 2025 5] r c
  have 3: "load_data (snd (save_data ?cut 2025 5 reading_snapshot)) 2025 5 = []"
    by blast
  from save_data_outcomes [of reading_snapshot ?cut 2025 5 failing_session] i f
  have 4: "\<exists>st'. save_current_data failing_session = Done st'
          \<and> habit_entries st' = habit_entries failing_session
          \<and> cells st' = cells failing_session
          \<and> status_text st' = STATUS_SAVE_ERROR"
    by blast
  from r a b c i 1 2 3 4 show ?thesis by blast
qed












lemma update_calendar_result:
  assumes "1 \<le> month" "month \<le> 12"
    and "initialized st \<and> \<not> is_initial_load \<longrightarrow> 1 \<le> current_month st \<and> current_month st \<le> 12"
  shows "update_calendar st year month is_initial_load =
     Done (navigated (if initialized st \<and> \<not> is_initial_load then persist st else st) year month)"
proof (cases "initialized st \<and> \<not> is_initial_load")
  case True
  with assms(3) have m: "1 \<le> current_month st" "current_month st \<le> 12" by simp_all
  from True have i: "initialized st" by simp
  have "update_calendar st year month False = Done (navigated (persist st) year month)"
    using assms(1,2) i m by (rule update_calendar_navigate)
  then show ?thesis using True by simp
next
  case False
  then have "\<not> initialized st \<or> is_initial_load" by simp
  with assms(1,2)
  have "update_calendar st year month is_initial_load = Done (navigated st year month)"
    by (rule update_calendar_initial)
  then show ?thesis by (simp only: if_not_P [OF False])
qed




lemma snapshot_present:
  "i < length data \<Longrightarrow> data ! i = d # rest \<Longrightarrow> map_of d ''text'' = Some t \<Longrightarrow>
     snapshot_name data i = t"
  "i < length data \<Longrightarrow> j < length (data ! i) \<Longrightarrow> map_of (data ! i ! j) ''bg'' = Some bg \<Longrightarrow>
     snapshot_bg data i j = bg"
  by (simp_all add: snapshot_name_def snapshot_bg_def)







lemma update_calendar_keeps:
  assumes "calendar_month st" and "1 \<le> month" "month \<le> 12"
  shows "\<exists>st'. update_calendar st year month is_initial_load = Done st'
      \<and> current_year st' = year \<and> current_month st' = month"
proof -
  from assms(1) have "initialized st \<and> \<not> is_initial_load \<longrightarrow>
      1 \<le> current_month st \<and> current_month st \<le> 12"
    by (simp add: calendar_month_def)
  with assms(2,3) have u: "update_calendar st year month is_initial_load =
     Done (navigated (if initialized st \<and> \<not> is_initial_load then persist st else st) year month)"
    by (rule update_calendar_result)
  show ?thesis
  proof (intro exI conjI)
    show "update_calendar st year month is_initial_load =
      Done (navigated (if initialized st \<and> \<not> is_initial_load then persist st else st) year month)"
      by (rule u)
    show "current_year (navigated (if initialized st \<and> \<not> is_initial_load then persist st else st)
        year month) = year"
      by (simp only: navigated_fields)
    show "current_month (navigated (if initialized st \<and> \<not> is_initial_load then persist st else st)
        year month) = month"
      by (simp only: navigated_fields)
  qed
qed

lemma change_month_keeps:
  assumes "calendar_month st"
  shows "\<exists>st'. change_month st delta = Done st' \<and> calendar_month st'
      \<and> (in_YEAR_RANGE (current_year st) \<longrightarrow> in_YEAR_RANGE (current_year st'))"
proof -
  define new_month where "new_month =
    (if current_month st + delta < 1 then 12
     else if 12 < current_month st + delta then 1 else current_month st + delta)"
  define new_year where "new_year =
    (if current_month st + delta < 1 then current_year st - 1
     else if 12 < current_month st + delta then current_year st + 1 else current_year st)"
  have m: "1 \<le> new_month" "new_month \<le> 12"
    by (simp_all add: new_month_def)
  have e: "change_month st delta =
      (if \<not> in_YEAR_RANGE new_year then Done st
       else update_calendar (st\<lparr>month_var := py_str new_month, year_var := py_str new_year\<rparr>)
              new_year new_month False)"
    by (simp add: change_month_def Let_def new_month_def new_year_def)
  show ?thesis
  proof (cases "in_YEAR_RANGE new_year")
    case False
    with e assms show ?thesis by simp
  next
    case True
    have "calendar_month (st\<lparr>month_var := py_str new_month, year_var := py_str new_year\<rparr>)"
      using assms by (simp add: calendar_month_def)
    from update_calendar_keeps [OF this m, of new_year False] obtain st' where
      "update_calendar (st\<lparr>month_var := py_str new_month, year_var := py_str new_year\<rparr>)
         new_year new_month False = Done st'"
      "current_year st' = new_year" "current_month st' = new_month"
      by (elim exE conjE) (rule that)
    with e True m show ?thesis by (simp add: calendar_month_def)
  qed
qed

lemma change_year_keeps:
  assumes "calendar_month st"
  shows "\<exists>st'. change_year st delta = Done st' \<and> calendar_month st'
      \<and> (in_YEAR_RANGE (current_year st) \<longrightarrow> in_YEAR_RANGE (current_year st'))"
proof (cases "in_YEAR_RANGE (current_year st + delta)")
  case False
  with assms show ?thesis by (simp add: change_year_def)
next
  case True
  have c: "calendar_month (st\<lparr>year_var := py_str (current_year st + delta)\<rparr>)"
    using assms by (simp add: calendar_month_def)
  from assms have m: "1 \<le> current_month st" "current_month st \<le> 12"
    by (simp_all add: calendar_month_def)
  from update_calendar_keeps [OF c m, of "current_year st + delta" False] obtain st' where
    "update_calendar (st\<lparr>year_var := py_str (current_year st + delta)\<rparr>)
       (current_year st + delta) (current_month st) False = Done st'"
    "current_year st' = current_year st + delta" "current_month st' = current_month st"
    by (elim exE conjE) (rule that)
  with True m show ?thesis by (simp add: change_year_def calendar_month_def)
qed

lemma on_update_button_click_keeps:
  assumes "calendar_month st"
  shows "\<exists>st'. on_update_button_click st = Done st' \<and> calendar_month st'
      \<and> (in_YEAR_RANGE (current_year st) \<longrightarrow> in_YEAR_RANGE (current_year st'))"
proof (cases "py_int (year_var st)")
  case None
  with assms show ?thesis by (simp add: on_update_button_click_def calendar_month_def)
next
  case y: (Some y)
  show ?thesis
  proof (cases "py_int (month_var st)")
    case None
    with y assms show ?thesis by (simp add: on_update_button_click_def calendar_month_def)
  next
    case m: (Some m)
    show ?thesis
    proof (cases "in_YEAR_RANGE y \<and> 1 \<le> m \<and> m \<le> 12")
      case False
      with y m assms show ?thesis
        by (auto simp: on_update_button_click_def calendar_month_def)
    next
      case True
      then have v: "1 \<le> m" "m \<le> 12" by simp_all
      from update_calendar_keeps [OF assms v, of y False] obtain st' where
        "update_calendar st y m False = Done st'" "current_year st' = y" "current_month st' = m"
        by (elim exE conjE) (rule that)
      with y m True show ?thesis
        by (simp add: on_update_button_click_def calendar_month_def)
    qed
  qed
qed

lemma toggle_cell_status_keeps:
  assumes "calendar_month st"
  shows "\<exists>st'. toggle_cell_status st widget = Done st' \<and> calendar_month st'
      \<and> current_year st' = current_year st"
proof (cases "cells st widget")
  case None
  with assms show ?thesis by (simp add: toggle_cell_status_absent)
next
  case (Some bg)
  let ?t = "st\<lparr>cells := (cells st)(widget \<mapsto> toggled bg)\<rparr>"
  have "save_current_data ?t = Done (persist ?t)"
    using assms by (intro save_current_data_valid) (simp_all add: calendar_month_def)
  with assms show ?thesis
    by (simp add: toggle_cell_status_present [OF Some] persist_fields calendar_month_def)
qed

lemma init_calendar_month:
  assumes "1 \<le> now_month" "now_month \<le> 12"
  shows "\<exists>st. init fs bg now_year now_month = Done st \<and> calendar_month st
      \<and> current_year st = now_year"
proof (intro exI conjI)
  show "init fs bg now_year now_month = Done (started fs bg now_year now_month)"
    using assms by (rule init_valid)
  show "calendar_month (started fs bg now_year now_month)"
    by (simp add: calendar_month_def started_fields(2) [OF assms] assms)
  show "current_year (started fs bg now_year now_month) = now_year"
    using assms by (rule started_fields)
qed

end
